theory Spec2Isabelle
  imports Complex_Main "HOL-Library.Monad_Syntax"
begin

section \<open>JavaScript numbers\<close>

text \<open>
  The program computes on JavaScript numbers. A finite number is modelled as a
  \<^typ>\<open>real\<close>: rounding and overflow of IEEE doubles are idealised away, and the
  sign of a computed zero is not kept. The operations of the source that leave the finite
  numbers on finite arguments (a division by zero, a fractional power of a
  negative base) are written out: they return a \<open>jsnum\<close>, whose other three
  values are \<open>Infinity\<close>, \<open>-Infinity\<close> and \<open>NaN\<close>.
\<close>

datatype jsnum = Fin real | PInf | NInf | NaN

text \<open>\<open>a / b\<close> on finite numbers.\<close>

definition js_div :: "real \<Rightarrow> real \<Rightarrow> jsnum" where
  "js_div a b =
     (if b \<noteq> 0 then Fin (a / b)
      else if a > 0 then PInf
      else if a < 0 then NInf
      else NaN)"

text \<open>
  A number that a caller passes in and that the program stores as it is and
  then divides by: the transition duration. Here the sign of a zero decides the
  sign of the quotient, so the value keeps it: \<open>Value 0\<close> is \<open>+0\<close> and
  \<open>NegativeZero\<close> is \<open>-0\<close>. The infinities and \<open>NaN\<close> can be passed in as well.
\<close>

datatype jsarg = Value real | NegativeZero | PlusInfinity | MinusInfinity | NotANumber

text \<open>\<open>a / d\<close> for a finite \<open>a\<close> and such a divisor. \<open>js_div\<close> divides by \<open>+0\<close> when
  its divisor is zero; a division by \<open>-0\<close> has the opposite sign; a finite number
  over an infinity is a zero.\<close>

fun js_quot :: "real \<Rightarrow> jsarg \<Rightarrow> jsnum" where
  "js_quot a (Value b) = js_div a b"
| "js_quot a NegativeZero = (if a > 0 then NInf else if a < 0 then PInf else NaN)"
| "js_quot a PlusInfinity = Fin 0"
| "js_quot a MinusInfinity = Fin 0"
| "js_quot a NotANumber = NaN"

text \<open>\<open>a + b\<close>, \<open>a >= c\<close>, \<open>a < c\<close> and \<open>a > c\<close> on numbers; every comparison with
  \<open>NaN\<close> is false.\<close>

fun js_add :: "jsnum \<Rightarrow> jsnum \<Rightarrow> jsnum" where
  "js_add (Fin a) (Fin b) = Fin (a + b)"
| "js_add NaN _ = NaN"
| "js_add _ NaN = NaN"
| "js_add PInf NInf = NaN"
| "js_add NInf PInf = NaN"
| "js_add PInf _ = PInf"
| "js_add _ PInf = PInf"
| "js_add NInf _ = NInf"
| "js_add _ NInf = NInf"

fun js_ge :: "jsnum \<Rightarrow> real \<Rightarrow> bool" where
  "js_ge (Fin a) c = (a \<ge> c)"
| "js_ge PInf c = True"
| "js_ge NInf c = False"
| "js_ge NaN c = False"

fun js_lt :: "jsnum \<Rightarrow> real \<Rightarrow> bool" where
  "js_lt (Fin a) c = (a < c)"
| "js_lt PInf c = False"
| "js_lt NInf c = True"
| "js_lt NaN c = False"

fun js_gt :: "jsnum \<Rightarrow> real \<Rightarrow> bool" where
  "js_gt (Fin a) c = (a > c)"
| "js_gt PInf c = True"
| "js_gt NInf c = False"
| "js_gt NaN c = False"

text \<open>\<open>Math.pow(x, y)\<close> on finite numbers.\<close>

definition Math_pow :: "real \<Rightarrow> real \<Rightarrow> jsnum" where
  "Math_pow x y =
     (if y = 0 then Fin 1
      else if x > 0 then Fin (x powr y)
      else if x = 0 then (if y > 0 then Fin 0 else PInf)
      else if y \<in> \<int> then
        (if even \<lfloor>y\<rfloor> then Fin (\<bar>x\<bar> powr y) else Fin (- (\<bar>x\<bar> powr y)))
      else NaN)"

text \<open>A computation that needs a finite number stops at the first value that is
  not one: \<open>None\<close> stands for a result that is \<open>NaN\<close> or infinite.\<close>

fun fin :: "jsnum \<Rightarrow> real option" where
  "fin (Fin a) = Some a"
| "fin _ = None"

section \<open>The transition easing (DayNightCycle.easeInOutCubic)\<close>

text \<open>\<open>t < 0.5 ? 4 * t * t * t : 1 - Math.pow(-2 * t + 2, 3) / 2\<close>; the power with
  exponent 3 is the cube on every finite base.\<close>

definition easeInOutCubic :: "real \<Rightarrow> real" where
  "easeInOutCubic t =
     (if t < 0.5 then 4 * t * t * t else 1 - (- 2 * t + 2) ^ 3 / 2)"

section \<open>Fractal noise (fbm, ridgedNoise, domainWarp, alpineHeight)\<close>

text \<open>
  \<open>noise2D\<close> is the simplex noise of the imported library, created once when the
  module is loaded. It is a parameter of the model: a function from two finite
  numbers to a finite number.
  The default values of the parameters (\<open>octaves = 6\<close>, \<open>persistence = 0.5\<close>,
  \<open>lacunarity = 2.0\<close>, \<open>scale = 1.0\<close>, and \<open>warpStrength = 0.5\<close>, \<open>scale = 0.5\<close> for
  the warp) stand in for omitted arguments only; every call in the sources
  passes all of them, and the functions below take all of them.

  The \<open>for\<close> loop of \<open>fbm\<close>, from the counter \<open>i\<close> on; the loop variables are
  \<open>(total, frequency, amplitude, maxValue)\<close> (\<open>total\<close> is written \<open>total'\<close>, the
  plain name being taken), and the loop hands \<open>total\<close> and
  \<open>maxValue\<close> to the final division. \<open>octaves\<close> is a number like any other, so
  the test \<open>i < octaves\<close> compares the counter with a real.
\<close>

function fbm_loop ::
  "(real \<Rightarrow> real \<Rightarrow> real) \<Rightarrow> real \<Rightarrow> real \<Rightarrow> real \<Rightarrow> real \<Rightarrow> real \<Rightarrow> nat \<Rightarrow>
   real \<times> real \<times> real \<times> real \<Rightarrow> real \<times> real" where
  "fbm_loop noise2D x y octaves persistence lacunarity i (total', frequency, amplitude, maxValue) =
     (if real i < octaves then
        fbm_loop noise2D x y octaves persistence lacunarity (Suc i)
          (total' + noise2D (x * frequency) (y * frequency) * amplitude,
           frequency * lacunarity,
           amplitude * persistence,
           maxValue + amplitude)
      else (total', maxValue))"
  by pat_completeness auto
termination
proof (relation "measure (\<lambda>(noise2D, x, y, octaves, persistence, lacunarity, i, vars). nat \<lceil>octaves\<rceil> - i)")
  show "wf (measure (\<lambda>(noise2D :: real \<Rightarrow> real \<Rightarrow> real, x :: real, y :: real, octaves :: real,
     persistence :: real, lacunarity :: real, i :: nat, vars :: real \<times> real \<times> real \<times> real).
     nat \<lceil>octaves\<rceil> - i))"
    by simp
next
  fix noise2D :: "real \<Rightarrow> real \<Rightarrow> real"
  fix x y octaves persistence lacunarity total' frequency amplitude maxValue :: real
  fix i :: nat
  assume "real i < octaves"
  then have "int i < \<lceil>octaves\<rceil>" by linarith
  then show "((noise2D, x, y, octaves, persistence, lacunarity, Suc i,
       total' + noise2D (x * frequency) (y * frequency) * amplitude,
       frequency * lacunarity, amplitude * persistence, maxValue + amplitude),
      (noise2D, x, y, octaves, persistence, lacunarity, i, total', frequency, amplitude, maxValue))
     \<in> measure (\<lambda>(noise2D, x, y, octaves, persistence, lacunarity, i, vars). nat \<lceil>octaves\<rceil> - i)"
    by simp
qed

text \<open>\<open>fbm(x, y, octaves, persistence, lacunarity, scale)\<close> returns
  \<open>total / maxValue\<close>.\<close>

definition fbm ::
  "(real \<Rightarrow> real \<Rightarrow> real) \<Rightarrow> real \<Rightarrow> real \<Rightarrow> real \<Rightarrow> real \<Rightarrow> real \<Rightarrow> real \<Rightarrow> real option" where
  "fbm noise2D x y octaves persistence lacunarity scale =
     (case fbm_loop noise2D x y octaves persistence lacunarity 0 (0, scale, 1, 0) of
        (total', maxValue) \<Rightarrow> fin (js_div total' maxValue))"

text \<open>The loop of \<open>ridgedNoise\<close>: the sample \<open>n\<close> becomes \<open>1.0 - Math.abs(n)\<close> and
  then \<open>n * n\<close> before it is weighted.\<close>

function ridged_loop ::
  "(real \<Rightarrow> real \<Rightarrow> real) \<Rightarrow> real \<Rightarrow> real \<Rightarrow> real \<Rightarrow> real \<Rightarrow> real \<Rightarrow> nat \<Rightarrow>
   real \<times> real \<times> real \<times> real \<Rightarrow> real \<times> real" where
  "ridged_loop noise2D x y octaves persistence lacunarity i (total', frequency, amplitude, maxValue) =
     (if real i < octaves then
        (let n = noise2D (x * frequency) (y * frequency);
             n = 1.0 - \<bar>n\<bar>;
             n = n * n
         in ridged_loop noise2D x y octaves persistence lacunarity (Suc i)
              (total' + n * amplitude,
               frequency * lacunarity,
               amplitude * persistence,
               maxValue + amplitude))
      else (total', maxValue))"
  by pat_completeness auto
termination
proof (relation "measure (\<lambda>(noise2D, x, y, octaves, persistence, lacunarity, i, vars). nat \<lceil>octaves\<rceil> - i)")
  show "wf (measure (\<lambda>(noise2D :: real \<Rightarrow> real \<Rightarrow> real, x :: real, y :: real, octaves :: real,
     persistence :: real, lacunarity :: real, i :: nat, vars :: real \<times> real \<times> real \<times> real).
     nat \<lceil>octaves\<rceil> - i))"
    by simp
next
  fix noise2D :: "real \<Rightarrow> real \<Rightarrow> real"
  fix x y octaves persistence lacunarity total' frequency amplitude maxValue n n' n'' :: real
  fix i :: nat
  assume "real i < octaves"
  then have "int i < \<lceil>octaves\<rceil>" by linarith
  then show "((noise2D, x, y, octaves, persistence, lacunarity, Suc i,
       total' + n'' * amplitude,
       frequency * lacunarity, amplitude * persistence, maxValue + amplitude),
      (noise2D, x, y, octaves, persistence, lacunarity, i, total', frequency, amplitude, maxValue))
     \<in> measure (\<lambda>(noise2D, x, y, octaves, persistence, lacunarity, i, vars). nat \<lceil>octaves\<rceil> - i)"
    by simp
qed

definition ridgedNoise ::
  "(real \<Rightarrow> real \<Rightarrow> real) \<Rightarrow> real \<Rightarrow> real \<Rightarrow> real \<Rightarrow> real \<Rightarrow> real \<Rightarrow> real \<Rightarrow> real option" where
  "ridgedNoise noise2D x y octaves persistence lacunarity scale =
     (case ridged_loop noise2D x y octaves persistence lacunarity 0 (0, scale, 1, 0) of
        (total', maxValue) \<Rightarrow> fin (js_div total' maxValue))"

text \<open>The two loops are unfolded one iteration at a time, where a proof asks
  for it.\<close>

declare fbm_loop.simps [simp del] ridged_loop.simps [simp del]

text \<open>\<open>domainWarp(x, y, warpStrength, scale)\<close> returns the object \<open>{x, y}\<close>, here a
  pair.\<close>

definition domainWarp ::
  "(real \<Rightarrow> real \<Rightarrow> real) \<Rightarrow> real \<Rightarrow> real \<Rightarrow> real \<Rightarrow> real \<Rightarrow> (real \<times> real) option" where
  "domainWarp noise2D x y warpStrength scale =
     do {
       warpX \<leftarrow> fbm noise2D x y 4 0.5 2.0 scale;
       warpY \<leftarrow> fbm noise2D (x + 5.2) (y + 1.3) 4 0.5 2.0 scale;
       Some (x + warpX * warpStrength, y + warpY * warpStrength)
     }"

text \<open>\<open>alpineHeight(x, y)\<close>, statement by statement.\<close>

definition alpineHeight :: "(real \<Rightarrow> real \<Rightarrow> real) \<Rightarrow> real \<Rightarrow> real \<Rightarrow> real option" where
  "alpineHeight noise2D x y =
     do {
       warped \<leftarrow> domainWarp noise2D x y 0.4 0.3;
       baseHeight \<leftarrow> fbm noise2D (fst warped) (snd warped) 5 0.5 2.0 1.5;
       ridges \<leftarrow> ridgedNoise noise2D (fst warped) (snd warped) 5 0.5 2.2 2.0;
       largeScale \<leftarrow> fbm noise2D x y 3 0.4 2.0 0.4;
       let ridgeBlend = max 0 (largeScale * 0.5 + 0.5);
       let height = baseHeight * (1 - ridgeBlend * 0.6) + ridges * ridgeBlend * 0.8;
       fine \<leftarrow> fbm noise2D (x * 4) (y * 4) 3 0.4 2.5 4.0;
       let detail = fine * 0.1;
       let height = height + detail;
       let height = (height + 1) * 0.5;
       height \<leftarrow> fin (Math_pow height 1.3);
       let height = (if height < 0.25 then height * 0.7 + 0.25 * 0.3 else height);
       Some (max 0 (min 1 height))
     }"

text \<open>
  The composite height as the specification words it, step 1 to step 11, on
  the same \<open>fbm\<close>, \<open>ridgedNoise\<close> and \<open>domainWarp\<close>: the reference that
  \<open>alpineHeight\<close> is compared with.
\<close>

definition alpineHeight_spec :: "(real \<Rightarrow> real \<Rightarrow> real) \<Rightarrow> real \<Rightarrow> real \<Rightarrow> real option" where
  "alpineHeight_spec noise2D x y =
     (case domainWarp noise2D x y 0.4 0.3 of
        None \<Rightarrow> None
      | Some (wx, wy) \<Rightarrow>
     (case fbm noise2D wx wy 5 0.5 2.0 1.5 of
        None \<Rightarrow> None
      | Some baseHeight \<Rightarrow>
     (case ridgedNoise noise2D wx wy 5 0.5 2.2 2.0 of
        None \<Rightarrow> None
      | Some ridges \<Rightarrow>
     (case fbm noise2D x y 3 0.4 2.0 0.4 of
        None \<Rightarrow> None
      | Some largeScale \<Rightarrow>
     (case fbm noise2D (x * 4) (y * 4) 3 0.4 2.5 4.0 of
        None \<Rightarrow> None
      | Some fine \<Rightarrow>
         (let ridgeBlend = max 0 (largeScale * 0.5 + 0.5);
              h6 = baseHeight * (1 - ridgeBlend * 0.6) + ridges * ridgeBlend * 0.8;
              h7 = h6 + fine * 0.1;
              h8 = (h7 + 1) * 0.5
          in case fin (Math_pow h8 1.3) of
               None \<Rightarrow> None
             | Some h9 \<Rightarrow>
                 (let h10 = (if h9 < 0.25 then h9 * 0.7 + 0.075 else h9)
                  in Some (if h10 < 0 then 0 else if h10 > 1 then 1 else h10))))))))"

section \<open>Terrain queries (TerrainGenerator)\<close>

text \<open>The options object of the constructor: each property is a number or
  absent.\<close>

record terrain_options =
  opt_width :: "real option"
  opt_depth :: "real option"
  opt_segments :: "real option"
  opt_heightScale :: "real option"

record terrain_generator =
  width :: real
  depth :: real
  segments :: real
  heightScale :: real

text \<open>\<open>v || d\<close> for a number or \<open>undefined\<close> on the left: the default is taken when
  the value is absent or zero.\<close>

definition js_or :: "real option \<Rightarrow> real \<Rightarrow> real" where
  "js_or v d = (case v of None \<Rightarrow> d | Some a \<Rightarrow> if a \<noteq> 0 then a else d)"

definition TerrainGenerator :: "terrain_options \<Rightarrow> terrain_generator" where
  "TerrainGenerator options =
     \<lparr> width = js_or (opt_width options) 400,
       depth = js_or (opt_depth options) 400,
       segments = js_or (opt_segments options) 256,
       heightScale = js_or (opt_heightScale options) 120 \<rparr>"

text \<open>\<open>getHeightAt(x, z)\<close>. The quotient by \<open>this.width\<close> or \<open>this.depth\<close> is a
  JavaScript division; the four comparisons decide on its result, and the
  height function is called on finite coordinates.\<close>

definition getHeightAt ::
  "(real \<Rightarrow> real \<Rightarrow> real) \<Rightarrow> terrain_generator \<Rightarrow> real \<Rightarrow> real \<Rightarrow> real option" where
  "getHeightAt noise2D this x z =
     (let nx = js_div (x + width this / 2) (width this);
          nz = js_div (z + depth this / 2) (depth this)
      in if js_lt nx 0 \<or> js_gt nx 1 \<or> js_lt nz 0 \<or> js_gt nz 1 then Some 0
         else do {
           a \<leftarrow> fin nx;
           b \<leftarrow> fin nz;
           h \<leftarrow> alpineHeight noise2D a b;
           Some (h * heightScale this)
         })"

section \<open>Lighting states (DayNightCycle)\<close>

datatype vector3 = Vector3 real real real

datatype color = Color real real real

text \<open>Modelled from the spec: the three.js library is not among the sources.
  \<open>lerpVectors\<close> and \<open>lerpColors\<close> interpolate linearly, component by component
  and channel by channel; \<open>normalize\<close> rescales a vector to length one and
  leaves the zero vector alone; \<open>lerp\<close> interpolates two scalars linearly.\<close>

fun lerpVectors :: "vector3 \<Rightarrow> vector3 \<Rightarrow> real \<Rightarrow> vector3" where
  "lerpVectors (Vector3 x1 y1 z1) (Vector3 x2 y2 z2) alpha =
     Vector3 (x1 + (x2 - x1) * alpha) (y1 + (y2 - y1) * alpha) (z1 + (z2 - z1) * alpha)"

fun normalize :: "vector3 \<Rightarrow> vector3" where
  "normalize (Vector3 x y z) =
     (let len = sqrt (x * x + y * y + z * z);
          d = (if len \<noteq> 0 then len else 1)
      in Vector3 (x / d) (y / d) (z / d))"

fun lerpColors :: "color \<Rightarrow> color \<Rightarrow> real \<Rightarrow> color" where
  "lerpColors (Color r1 g1 b1) (Color r2 g2 b2) alpha =
     Color (r1 + (r2 - r1) * alpha) (g1 + (g2 - g1) * alpha) (b1 + (b2 - b1) * alpha)"

definition lerp :: "real \<Rightarrow> real \<Rightarrow> real \<Rightarrow> real" where
  "lerp x y t = (1 - t) * x + t * y"

record lighting_state =
  sunPosition :: vector3
  sunDirection :: vector3
  sunColor :: color
  sunIntensity :: real
  ambientColor :: color
  ambientIntensity :: real
  hemiSkyColor :: color
  hemiGroundColor :: color
  hemiIntensity :: real
  skyTopColor :: color
  skyMiddleColor :: color
  skyBottomColor :: color
  skyHorizonColor :: color
  skySunColor :: color
  skySunIntensity :: real
  skyStarIntensity :: real
  fogColor :: color
  fogDensity :: real
  terrainDayNightMix :: real
  exposure :: real

definition createDayState :: lighting_state where
  "createDayState =
     \<lparr> sunPosition = Vector3 100 200 80,
       sunDirection = normalize (Vector3 0.4 0.8 0.3),
       sunColor = Color 1.0 0.98 0.92,
       sunIntensity = 2.0,
       ambientColor = Color 0.5 0.6 0.8,
       ambientIntensity = 0.5,
       hemiSkyColor = Color 0.6 0.75 0.9,
       hemiGroundColor = Color 0.3 0.4 0.25,
       hemiIntensity = 0.4,
       skyTopColor = Color 0.15 0.35 0.75,
       skyMiddleColor = Color 0.4 0.6 0.85,
       skyBottomColor = Color 0.5 0.55 0.6,
       skyHorizonColor = Color 0.65 0.78 0.88,
       skySunColor = Color 1.0 0.98 0.92,
       skySunIntensity = 1.2,
       skyStarIntensity = 0.0,
       fogColor = Color 0.6 0.75 0.9,
       fogDensity = 0.0008,
       terrainDayNightMix = 0.0,
       exposure = 1.0 \<rparr>"

definition createNightState :: lighting_state where
  "createNightState =
     \<lparr> sunPosition = Vector3 (- 80) 100 (- 60),
       sunDirection = normalize (Vector3 (- 0.3) 0.6 (- 0.3)),
       sunColor = Color 0.6 0.7 0.9,
       sunIntensity = 0.3,
       ambientColor = Color 0.1 0.12 0.2,
       ambientIntensity = 0.3,
       hemiSkyColor = Color 0.08 0.1 0.2,
       hemiGroundColor = Color 0.02 0.03 0.05,
       hemiIntensity = 0.2,
       skyTopColor = Color 0.01 0.01 0.05,
       skyMiddleColor = Color 0.03 0.04 0.1,
       skyBottomColor = Color 0.02 0.02 0.05,
       skyHorizonColor = Color 0.06 0.07 0.12,
       skySunColor = Color 0.8 0.85 1.0,
       skySunIntensity = 0.5,
       skyStarIntensity = 1.0,
       fogColor = Color 0.05 0.06 0.1,
       fogDensity = 0.0015,
       terrainDayNightMix = 1.0,
       exposure = 0.6 \<rparr>"

definition cloneState :: "lighting_state \<Rightarrow> lighting_state" where
  "cloneState state =
     \<lparr> sunPosition = sunPosition state,
       sunDirection = sunDirection state,
       sunColor = sunColor state,
       sunIntensity = sunIntensity state,
       ambientColor = ambientColor state,
       ambientIntensity = ambientIntensity state,
       hemiSkyColor = hemiSkyColor state,
       hemiGroundColor = hemiGroundColor state,
       hemiIntensity = hemiIntensity state,
       skyTopColor = skyTopColor state,
       skyMiddleColor = skyMiddleColor state,
       skyBottomColor = skyBottomColor state,
       skyHorizonColor = skyHorizonColor state,
       skySunColor = skySunColor state,
       skySunIntensity = skySunIntensity state,
       skyStarIntensity = skyStarIntensity state,
       fogColor = fogColor state,
       fogDensity = fogDensity state,
       terrainDayNightMix = terrainDayNightMix state,
       exposure = exposure state \<rparr>"

text \<open>\<open>lerpState(from, to, t, target)\<close> writes every field of \<open>target\<close>; the
  written target is returned.\<close>

definition lerpState ::
  "lighting_state \<Rightarrow> lighting_state \<Rightarrow> real \<Rightarrow> lighting_state \<Rightarrow> lighting_state" where
  "lerpState from to t target =
     (let eased = easeInOutCubic t in
      target
       \<lparr> sunPosition := lerpVectors (sunPosition from) (sunPosition to) eased,
         sunDirection := normalize (lerpVectors (sunDirection from) (sunDirection to) eased),
         sunColor := lerpColors (sunColor from) (sunColor to) eased,
         ambientColor := lerpColors (ambientColor from) (ambientColor to) eased,
         hemiSkyColor := lerpColors (hemiSkyColor from) (hemiSkyColor to) eased,
         hemiGroundColor := lerpColors (hemiGroundColor from) (hemiGroundColor to) eased,
         skyTopColor := lerpColors (skyTopColor from) (skyTopColor to) eased,
         skyMiddleColor := lerpColors (skyMiddleColor from) (skyMiddleColor to) eased,
         skyBottomColor := lerpColors (skyBottomColor from) (skyBottomColor to) eased,
         skyHorizonColor := lerpColors (skyHorizonColor from) (skyHorizonColor to) eased,
         skySunColor := lerpColors (skySunColor from) (skySunColor to) eased,
         fogColor := lerpColors (fogColor from) (fogColor to) eased,
         sunIntensity := lerp (sunIntensity from) (sunIntensity to) eased,
         ambientIntensity := lerp (ambientIntensity from) (ambientIntensity to) eased,
         hemiIntensity := lerp (hemiIntensity from) (hemiIntensity to) eased,
         skySunIntensity := lerp (skySunIntensity from) (skySunIntensity to) eased,
         skyStarIntensity := lerp (skyStarIntensity from) (skyStarIntensity to) eased,
         fogDensity := lerp (fogDensity from) (fogDensity to) eased,
         terrainDayNightMix := lerp (terrainDayNightMix from) (terrainDayNightMix to) eased,
         exposure := lerp (exposure from) (exposure to) eased \<rparr>)"

section \<open>The day and night machine (DayNightCycle)\<close>

text \<open>
  The fields of the object. \<open>currentState\<close> and \<open>targetState\<close> hold the numbers
  0 (day) and 1 (night). The scene, the sky and the renderer are collaborators:
  \<open>applied\<close> lists the states handed to \<open>applyState\<close> and \<open>skyTimes\<close> the times
  handed to \<open>sky.update\<close>, the newest first. The indicator element of the page
  and the time uniform of the terrain material are not part of the model.
\<close>

record day_night_cycle =
  currentState :: nat
  targetState :: nat
  transitionProgress :: real
  transitionDuration :: jsarg
  isTransitioning :: bool
  dayColors :: lighting_state
  nightColors :: lighting_state
  currentColors :: lighting_state
  applied :: "lighting_state list"
  skyTimes :: "real list"

definition applyState :: "lighting_state \<Rightarrow> day_night_cycle \<Rightarrow> day_night_cycle" where
  "applyState state this = this \<lparr> applied := state # applied this \<rparr>"

definition DayNightCycle :: day_night_cycle where
  "DayNightCycle =
     applyState (cloneState createDayState)
       \<lparr> currentState = 0,
         targetState = 0,
         transitionProgress = 0,
         transitionDuration = Value 2.5,
         isTransitioning = False,
         dayColors = createDayState,
         nightColors = createNightState,
         currentColors = cloneState createDayState,
         applied = [],
         skyTimes = [] \<rparr>"

definition toggle :: "day_night_cycle \<Rightarrow> day_night_cycle" where
  "toggle this =
     (if isTransitioning this then
        this \<lparr> targetState := (if targetState this = 0 then 1 else 0) \<rparr>
      else
        this \<lparr> targetState := (if currentState this = 0 then 1 else 0),
               isTransitioning := True,
               transitionProgress := 0 \<rparr>)"

definition isDay :: "day_night_cycle \<Rightarrow> bool" where
  "isDay this = (currentState this = 0 \<and> \<not> isTransitioning this)"

definition isNight :: "day_night_cycle \<Rightarrow> bool" where
  "isNight this = (currentState this = 1 \<and> \<not> isTransitioning this)"

text \<open>The last four statements of the transition branch of \<open>update\<close>: the two
  endpoints by the current and the target state, the interpolation into
  \<open>currentColors\<close>, and the push to the scene.\<close>

definition interpolate :: "day_night_cycle \<Rightarrow> day_night_cycle" where
  "interpolate this =
     (let fromState = (if currentState this = 0 then dayColors this else nightColors this);
          toState = (if targetState this = 0 then dayColors this else nightColors this);
          blended = lerpState fromState toState (transitionProgress this) (currentColors this)
      in applyState blended (this \<lparr> currentColors := blended \<rparr>))"

text \<open>
  The first statements of the transition branch of \<open>update\<close>: the quotient
  \<open>deltaTime / transitionDuration\<close> is added to the progress, and when the sum is
  at least 1 (\<open>Infinity\<close> is, \<open>NaN\<close> and \<open>-Infinity\<close> are not) the progress becomes 1,
  the current state the target state, and the transition ends. \<open>advance\<close> returns
  the three fields \<open>transitionProgress\<close>, \<open>currentState\<close> and \<open>isTransitioning\<close> as
  these statements leave them; the progress is a JavaScript number.
\<close>

definition advance :: "real \<Rightarrow> day_night_cycle \<Rightarrow> jsnum \<times> nat \<times> bool" where
  "advance deltaTime this =
     (let progress = js_add (Fin (transitionProgress this))
                            (js_quot deltaTime (transitionDuration this))
      in if js_ge progress 1 then (Fin 1, targetState this, False)
         else (progress, currentState this, isTransitioning this))"

text \<open>
  \<open>update(deltaTime, elapsedTime)\<close>. After \<open>advance\<close> the source interpolates at
  the new progress and applies the result. With a finite progress that is the
  state returned here. With the progress \<open>NaN\<close> or \<open>-Infinity\<close> the source goes on
  as well, the transition still active, and writes numbers that are not finite
  into the lighting state; the lighting states of this theory are finite, and
  the result is \<open>None\<close>.
\<close>

definition update :: "real \<Rightarrow> real \<Rightarrow> day_night_cycle \<Rightarrow> day_night_cycle option" where
  "update deltaTime elapsedTime this0 =
     (let this = this0 \<lparr> skyTimes := elapsedTime # skyTimes this0 \<rparr> in
      if isTransitioning this then
        (case advance deltaTime this of
           (Fin progress, current, active) \<Rightarrow>
             Some (interpolate
               (this \<lparr> transitionProgress := progress,
                       currentState := current,
                       isTransitioning := active \<rparr>))
         | _ \<Rightarrow> None)
      else Some this)"


definition getCurrentValue :: "day_night_cycle \<Rightarrow> real" where
  "getCurrentValue this =
     (if \<not> isTransitioning this then real (currentState this)
      else
        (let direction = (if targetState this > currentState this then 1 else - 1)
         in real (currentState this) + direction * easeInOutCubic (transitionProgress this)))"

text \<open>The states of the machine that a program reaches: the constructed object,
  then any sequence of \<open>toggle()\<close> and of \<open>update\<close> with a non-negative
  \<open>deltaTime\<close>.\<close>

inductive reachable :: "day_night_cycle \<Rightarrow> bool" where
  reachable_init: "reachable DayNightCycle"
| reachable_toggle: "reachable s \<Longrightarrow> reachable (toggle s)"
| reachable_update: "reachable s \<Longrightarrow> 0 \<le> deltaTime \<Longrightarrow> update deltaTime elapsedTime s = Some s'
     \<Longrightarrow> reachable s'"

section \<open>Scenarios\<close>

text \<open>
  Concrete runs of the machine, used to evaluate the code: the toggle from the
  constructed idle day (A), half of the default duration later (B), the
  completed transition (C); the run that is 0.3 of the way to the night when
  it is toggled again; and the run B toggled again.
\<close>

definition scenario_A :: day_night_cycle where
  "scenario_A = toggle DayNightCycle"

definition scenario_B :: day_night_cycle where
  "scenario_B = the (update 1.25 0 scenario_A)"

definition scenario_C :: day_night_cycle where
  "scenario_C = the (update 1.25 0 scenario_B)"

definition before_reversal :: day_night_cycle where
  "before_reversal = the (update 0.75 0 scenario_A)"

definition reversed_at_half :: day_night_cycle where
  "reversed_at_half = toggle scenario_B"

section \<open>Properties of the easing\<close>

lemma Math_pow_cube: "Math_pow x 3 = Fin (x ^ 3)"
proof -
  have int3: "(3::real) \<in> \<int>" by simp
  have odd3: "\<not> even \<lfloor>3::real\<rfloor>" by simp
  have pos: "0 < x \<Longrightarrow> x powr 3 = x ^ 3" for x :: real
    using powr_realpow [of x 3] by simp
  consider "x > 0" | "x = 0" | "x < 0" by linarith
  then show ?thesis
  proof cases
    case 1
    then show ?thesis by (simp add: Math_pow_def pos)
  next
    case 2
    then show ?thesis by (simp add: Math_pow_def)
  next
    case 3
    then have "\<bar>x\<bar> powr 3 = (- x) ^ 3" using pos [of "- x"] by simp
    with 3 int3 odd3 show ?thesis by (simp add: Math_pow_def)
  qed
qed

lemma ease_lower_half: "0 \<le> s \<Longrightarrow> s \<le> t \<Longrightarrow> 4 * s * s * s \<le> 4 * t * t * (t::real)"
proof -
  assume a: "0 \<le> s" "s \<le> t"
  have "s ^ 3 \<le> t ^ 3" by (rule power_mono [OF a(2) a(1)])
  then show ?thesis by (simp add: power3_eq_cube algebra_simps)
qed

lemma ease_upper_half:
  "s \<le> t \<Longrightarrow> t \<le> 1 \<Longrightarrow> 1 - (- 2 * s + 2) ^ 3 / 2 \<le> 1 - (- 2 * t + 2) ^ 3 / (2::real)"
proof -
  assume a: "s \<le> t" "t \<le> 1"
  have "(- 2 * t + 2) ^ 3 \<le> (- 2 * s + 2) ^ 3"
    by (rule power_mono) (use a in auto)
  then show ?thesis by simp
qed

lemma ease_across_half:
  assumes "0 \<le> s" "s < 1 / 2" "1 / 2 \<le> t" "t \<le> (1::real)"
  shows "4 * s * s * s \<le> 1 - (- 2 * t + 2) ^ 3 / 2"
proof -
  have "4 * s * s * s \<le> 4 * (1 / 2) * (1 / 2) * (1 / 2 :: real)"
    using assms by (intro ease_lower_half) auto
  then have lo: "4 * s * s * s \<le> 1 / 2" by simp
  have "(- 2 * t + 2) ^ 3 \<le> (1::real) ^ 3"
    by (rule power_mono) (use assms in auto)
  then have hi: "1 / 2 \<le> 1 - (- 2 * t + 2) ^ 3 / 2" by simp
  from lo hi show ?thesis by linarith
qed

text \<open>
  Claim C8. The easing takes 0 to 0, 1 to 1 and 0.5 to 0.5, and it is
  non-decreasing on the interval from 0 to 1: for \<open>s\<close> and \<open>t\<close> there with
  \<open>s \<le> t\<close>, the eased \<open>s\<close> is at most the eased \<open>t\<close>.
\<close>

theorem easeInOutCubic_endpoints_mono:
  "easeInOutCubic 0 = 0 \<and> easeInOutCubic 1 = 1 \<and> easeInOutCubic 0.5 = 0.5 \<and>
   (\<forall>s t. 0 \<le> s \<and> s \<le> t \<and> t \<le> 1 \<longrightarrow> easeInOutCubic s \<le> easeInOutCubic t)"
proof -
  have e0: "easeInOutCubic 0 = 0" by (simp add: easeInOutCubic_def)
  have e1: "easeInOutCubic 1 = 1" by (simp add: easeInOutCubic_def)
  have eh: "easeInOutCubic 0.5 = 0.5" by (simp add: easeInOutCubic_def power3_eq_cube)
  have mono: "easeInOutCubic s \<le> easeInOutCubic t"
    if h: "0 \<le> s \<and> s \<le> t \<and> t \<le> 1" for s t
  proof -
    consider "t < 1 / 2" | "1 / 2 \<le> s" | "s < 1 / 2" "1 / 2 \<le> t" by linarith
    then show ?thesis
    proof cases
      case 1
      with h have "s < 1 / 2" by linarith
      with 1 h ease_lower_half [of s t] show ?thesis by (simp add: easeInOutCubic_def)
    next
      case 2
      with h have "1 / 2 \<le> t" by linarith
      with 2 h ease_upper_half [of s t] show ?thesis by (simp add: easeInOutCubic_def)
    next
      case 3
      with h ease_across_half [of s t] show ?thesis by (simp add: easeInOutCubic_def)
    qed
  qed
  from e0 e1 eh mono show ?thesis by blast
qed

theorem easeInOutCubic_endpoints_mono_witness:
  "(0::real) \<le> 1 / 4 \<and> (1 / 4 :: real) \<le> 3 / 4 \<and> (3 / 4 :: real) \<le> 1 \<and>
   easeInOutCubic (1 / 4) \<le> easeInOutCubic (3 / 4) \<and>
   easeInOutCubic (1 / 4) = 1 / 16 \<and> easeInOutCubic (3 / 4) = 15 / 16"
proof -
  have "easeInOutCubic (1 / 4) \<le> easeInOutCubic (3 / 4)"
    using easeInOutCubic_endpoints_mono by simp
  moreover have "easeInOutCubic (1 / 4) = 1 / 16"
    by (simp add: easeInOutCubic_def)
  moreover have "easeInOutCubic (3 / 4) = 15 / 16"
    by (simp add: easeInOutCubic_def power3_eq_cube)
  ultimately show ?thesis by simp
qed

section \<open>The composite height and the terrain query\<close>

text \<open>
  Claim C1. On every pair of finite coordinates \<open>alpineHeight\<close> computes the
  sequence of the specification, in its order and with its constants: the warp
  by \<open>domainWarp\<close> at 0.4 and 0.3, the base height, the ridges, the large scale
  on the unwarped point, the ridge blend, the blend of the layers, the fine
  detail, the remap, the power 1.3, the valley rule below 0.25 and the clamp.
  It equals the reference definition built from \<open>fbm\<close>, \<open>ridgedNoise\<close> and
  \<open>domainWarp\<close>.
\<close>

theorem alpineHeight_refines_spec:
  "alpineHeight noise2D x y = alpineHeight_spec noise2D x y"
  by (simp add: alpineHeight_def alpineHeight_spec_def Let_def max_def min_def
      split: option.splits prod.splits)

lemma js_or_nonzero: "d \<noteq> 0 \<Longrightarrow> js_or v d \<noteq> 0"
  by (simp add: js_or_def split: option.splits)

lemma TerrainGenerator_nonzero:
  "width (TerrainGenerator options) \<noteq> 0 \<and> depth (TerrainGenerator options) \<noteq> 0"
  by (simp add: TerrainGenerator_def js_or_nonzero)

text \<open>
  Claim C6. For every pair of world coordinates, \<open>getHeightAt\<close> of a constructed
  generator normalizes them to \<open>nx = (worldX + width / 2) / width\<close> and
  \<open>nz = (worldZ + depth / 2) / depth\<close>; it returns exactly 0 when one of them is
  outside the interval from 0 to 1, and \<open>alpineHeight nx nz\<close> times \<open>heightScale\<close>
  otherwise.
\<close>

theorem getHeightAt_normalized:
  "getHeightAt noise2D (TerrainGenerator options) worldX worldZ =
     (let this = TerrainGenerator options;
          nx = (worldX + width this / 2) / width this;
          nz = (worldZ + depth this / 2) / depth this
      in if nx < 0 \<or> nx > 1 \<or> nz < 0 \<or> nz > 1 then Some 0
         else map_option (\<lambda>h. h * heightScale this) (alpineHeight noise2D nx nz))"
proof -
  have w: "width (TerrainGenerator options) \<noteq> 0" and d: "depth (TerrainGenerator options) \<noteq> 0"
    using TerrainGenerator_nonzero by simp_all
  show ?thesis
    using w d by (simp add: getHeightAt_def js_div_def Let_def map_option_case split: option.splits)
qed

section \<open>The range of the ridged noise\<close>

lemma ridge_sample_bounds:
  assumes "- 1 \<le> n" "n \<le> (1::real)"
  shows "0 \<le> (1 - \<bar>n\<bar>) * (1 - \<bar>n\<bar>) \<and> (1 - \<bar>n\<bar>) * (1 - \<bar>n\<bar>) \<le> 1"
proof -
  have a: "0 \<le> 1 - \<bar>n\<bar>" "1 - \<bar>n\<bar> \<le> 1" using assms by auto
  then have "(1 - \<bar>n\<bar>) * (1 - \<bar>n\<bar>) \<le> 1 * 1" by (intro mult_mono) auto
  with a show ?thesis by simp
qed

lemma ridged_loop_bounds:
  "(\<forall>a b. - 1 \<le> noise2D a b \<and> noise2D a b \<le> 1) \<Longrightarrow> 0 < persistence \<Longrightarrow>
   0 < amplitude \<Longrightarrow> 0 \<le> total' \<Longrightarrow> total' \<le> maxValue \<Longrightarrow>
   ridged_loop noise2D x y octaves persistence lacunarity i
     (total', frequency, amplitude, maxValue) = (t, m) \<Longrightarrow>
   0 \<le> t \<and> t \<le> m \<and> (if real i < octaves then maxValue + amplitude \<le> m else maxValue = m)"
proof (induction noise2D x y octaves persistence lacunarity i "(total', frequency, amplitude, maxValue)"
    arbitrary: total' frequency amplitude maxValue rule: ridged_loop.induct)
  case (1 noise2D x y octaves persistence lacunarity i total' frequency amplitude maxValue)
  note noise = "1.prems"(1) and pers = "1.prems"(2) and amp0 = "1.prems"(3)
    and lo0 = "1.prems"(4) and hi0 = "1.prems"(5) and run = "1.prems"(6)
  show ?case
  proof (cases "real i < octaves")
    case False
    with run have "total' = t \<and> maxValue = m"
      by (subst (asm) ridged_loop.simps) simp
    with False lo0 hi0 show ?thesis by simp
  next
    case True
    define n where "n = (1.0 - \<bar>noise2D (x * frequency) (y * frequency)\<bar>) *
      (1.0 - \<bar>noise2D (x * frequency) (y * frequency)\<bar>)"
    have "0 \<le> (1 - \<bar>noise2D (x * frequency) (y * frequency)\<bar>) *
        (1 - \<bar>noise2D (x * frequency) (y * frequency)\<bar>) \<and>
      (1 - \<bar>noise2D (x * frequency) (y * frequency)\<bar>) *
        (1 - \<bar>noise2D (x * frequency) (y * frequency)\<bar>) \<le> 1"
      using noise by (intro ridge_sample_bounds) auto
    then have nb: "0 \<le> n \<and> n \<le> 1"
      by (simp add: n_def)
    have step: "ridged_loop noise2D x y octaves persistence lacunarity (Suc i)
        (total' + n * amplitude, frequency * lacunarity, amplitude * persistence,
         maxValue + amplitude) = (t, m)"
      using run True by (subst (asm) ridged_loop.simps) (simp add: Let_def n_def)
    have amp: "0 < amplitude * persistence"
      using amp0 pers by simp
    have lo: "0 \<le> total' + n * amplitude"
      using nb amp0 lo0 by simp
    have "n * amplitude \<le> 1 * amplitude"
      using nb amp0 by (intro mult_right_mono) auto
    then have hi: "total' + n * amplitude \<le> maxValue + amplitude"
      using hi0 by simp
    have "0 \<le> t \<and> t \<le> m \<and>
        (if real (Suc i) < octaves then maxValue + amplitude + amplitude * persistence \<le> m
         else maxValue + amplitude = m)"
      using "1.hyps" [OF True refl refl refl noise pers amp lo [unfolded n_def] hi [unfolded n_def]
          step [unfolded n_def]]
      by simp
    with amp True show ?thesis by (auto split: if_splits)
  qed
qed

text \<open>
  Claim C7. When the noise primitive returns values between -1 and 1, the
  octaves are at least 1 and the persistence is positive, \<open>ridgedNoise\<close> returns
  a finite value between 0 and 1, whatever the point, the lacunarity and the
  scale: every sample \<open>n\<close> enters the sum as \<open>(1 - |n|)\<^sup>2\<close> times its amplitude, and
  the sum is divided by the sum of the amplitudes.
\<close>

theorem ridgedNoise_unit_interval:
  assumes "\<forall>a b. - 1 \<le> noise2D a b \<and> noise2D a b \<le> 1"
    and "1 \<le> octaves" and "0 < persistence"
  shows "\<exists>r. ridgedNoise noise2D x y octaves persistence lacunarity scale = Some r \<and>
    0 \<le> r \<and> r \<le> 1"
proof -
  obtain t m where loop:
    "ridged_loop noise2D x y octaves persistence lacunarity 0 (0, scale, 1, 0) = (t, m)"
    by (cases "ridged_loop noise2D x y octaves persistence lacunarity 0 (0, scale, 1, 0)") auto
  have "0 \<le> t \<and> t \<le> m \<and> (if real (0::nat) < octaves then 0 + 1 \<le> m else 0 = m)"
    by (rule ridged_loop_bounds [OF assms(1) assms(3) _ _ _ loop]) auto
  with assms(2) have b: "0 \<le> t" "t \<le> m" "1 \<le> m" by auto
  then have "ridgedNoise noise2D x y octaves persistence lacunarity scale = Some (t / m)"
    unfolding ridgedNoise_def loop by (simp add: js_div_def)
  moreover from b have "0 \<le> t / m \<and> t / m \<le> 1" by simp
  ultimately show ?thesis by blast
qed

theorem ridgedNoise_unit_interval_witness:
  "(\<forall>a b :: real. - 1 \<le> (0::real) \<and> (0::real) \<le> 1) \<and> (1::real) \<le> 2 \<and> (0::real) < 1 / 2 \<and>
   ridgedNoise (\<lambda>a b. 0) 0 0 2 (1 / 2) 2 1 = Some 1"
proof -
  have "\<exists>r. ridgedNoise (\<lambda>a b. 0) 0 0 2 (1 / 2) 2 1 = Some r \<and> 0 \<le> r \<and> r \<le> 1"
    by (rule ridgedNoise_unit_interval) auto
  moreover have "ridgedNoise (\<lambda>a b. 0) 0 0 2 (1 / 2) 2 1 = Some 1"
    by (simp add: ridgedNoise_def ridged_loop.simps js_div_def Let_def)
  ultimately show ?thesis by simp
qed

section \<open>Steps of the machine\<close>

lemma interpolate_cursor [simp]:
  "currentState (interpolate s) = currentState s"
  "targetState (interpolate s) = targetState s"
  "transitionProgress (interpolate s) = transitionProgress s"
  "transitionDuration (interpolate s) = transitionDuration s"
  "isTransitioning (interpolate s) = isTransitioning s"
  "dayColors (interpolate s) = dayColors s"
  "nightColors (interpolate s) = nightColors s"
  "skyTimes (interpolate s) = skyTimes s"
  by (simp_all add: interpolate_def applyState_def Let_def)

lemma interpolate_emits:
  "currentColors (interpolate s) =
     lerpState (if currentState s = 0 then dayColors s else nightColors s)
       (if targetState s = 0 then dayColors s else nightColors s)
       (transitionProgress s) (currentColors s)"
  "applied (interpolate s) = currentColors (interpolate s) # applied s"
  by (simp_all add: interpolate_def applyState_def Let_def)

lemma update_idle: "\<not> isTransitioning s \<Longrightarrow>
  update deltaTime elapsedTime s = Some (s \<lparr> skyTimes := elapsedTime # skyTimes s \<rparr>)"
  by (simp add: update_def Let_def)

lemma advance_finite:
  assumes "transitionDuration s = Value d" "d \<noteq> 0"
  shows "advance deltaTime s =
    (if 1 \<le> transitionProgress s + deltaTime / d then (Fin 1, targetState s, False)
     else (Fin (transitionProgress s + deltaTime / d), currentState s, isTransitioning s))"
  using assms by (simp add: advance_def Let_def js_div_def)

lemma advance_skyTimes [simp]:
  "advance deltaTime (s \<lparr> skyTimes := ts \<rparr>) = advance deltaTime s"
  by (simp add: advance_def Let_def)

lemma still_active:
  "isTransitioning s \<Longrightarrow> s \<lparr> isTransitioning := True \<rparr> = s"
  by (cases s) simp

lemma update_advance:
  assumes "isTransitioning s" "transitionDuration s = Value d" "d \<noteq> 0"
    "transitionProgress s + deltaTime / d < 1"
  shows "update deltaTime elapsedTime s =
    Some (interpolate (s \<lparr> skyTimes := elapsedTime # skyTimes s,
      transitionProgress := transitionProgress s + deltaTime / d \<rparr>))"
proof -
  let ?s = "s \<lparr> skyTimes := elapsedTime # skyTimes s,
      transitionProgress := transitionProgress s + deltaTime / d \<rparr>"
  have "isTransitioning ?s" using assms(1) by simp
  then have same: "?s \<lparr> isTransitioning := True \<rparr> = ?s" by (rule still_active)
  have "update deltaTime elapsedTime s = Some (interpolate (?s \<lparr> isTransitioning := True \<rparr>))"
    using assms by (simp add: update_def Let_def advance_finite)
  then show ?thesis by (simp only: same)
qed

lemma update_still_active:
  assumes "isTransitioning s" "update deltaTime elapsedTime s = Some s'" "isTransitioning s'"
  shows "\<exists>p. s' = interpolate
    (s \<lparr> skyTimes := elapsedTime # skyTimes s, transitionProgress := p \<rparr>)"
proof -
  let ?s = "s \<lparr> skyTimes := elapsedTime # skyTimes s \<rparr>"
  have u: "(case advance deltaTime s of
        (Fin progress, current, active) \<Rightarrow>
          Some (interpolate (?s \<lparr> transitionProgress := progress, currentState := current,
            isTransitioning := active \<rparr>))
      | _ \<Rightarrow> None) = Some s'"
    using assms(1,2) by (simp add: update_def Let_def)
  define q where "q = js_add (Fin (transitionProgress s))
      (js_quot deltaTime (transitionDuration s))"
  show ?thesis
  proof (cases "js_ge q 1")
    case True
    then have "advance deltaTime s = (Fin 1, targetState s, False)"
      by (simp add: advance_def Let_def q_def)
    with u assms(3) show ?thesis by auto
  next
    case False
    then have a: "advance deltaTime s = (q, currentState s, isTransitioning s)"
      by (simp add: advance_def Let_def q_def)
    from u obtain p where "q = Fin p"
      unfolding a by (cases q) simp_all
    with u have "s' = interpolate (?s \<lparr> transitionProgress := p,
        currentState := currentState s, isTransitioning := isTransitioning s \<rparr>)"
      unfolding a by simp
    also have "?s \<lparr> transitionProgress := p,
        currentState := currentState s, isTransitioning := isTransitioning s \<rparr>
        = s \<lparr> skyTimes := elapsedTime # skyTimes s, transitionProgress := p \<rparr>"
      by (cases s) simp
    finally show ?thesis by blast
  qed
qed

lemma update_complete:
  assumes "isTransitioning s" "transitionDuration s = Value d" "d \<noteq> 0"
    "1 \<le> transitionProgress s + deltaTime / d"
  shows "update deltaTime elapsedTime s =
    Some (interpolate (s \<lparr> skyTimes := elapsedTime # skyTimes s,
      transitionProgress := 1, currentState := targetState s, isTransitioning := False \<rparr>))"
  using assms by (simp add: update_def Let_def advance_finite)

lemma sunIntensity_lerpState [simp]:
  "sunIntensity (lerpState from to t target) =
     lerp (sunIntensity from) (sunIntensity to) (easeInOutCubic t)"
  by (simp add: lerpState_def Let_def)

lemma toggle_DayNightCycle:
  "isTransitioning (toggle DayNightCycle)" "targetState (toggle DayNightCycle) = 1"
  "currentState (toggle DayNightCycle) = 0" "transitionProgress (toggle DayNightCycle) = 0"
  "transitionDuration (toggle DayNightCycle) = Value (5 / 2)"
  "dayColors (toggle DayNightCycle) = createDayState"
  "nightColors (toggle DayNightCycle) = createNightState"
  by (simp_all add: toggle_def DayNightCycle_def applyState_def)

lemma update_cursor:
  assumes "update deltaTime elapsedTime s = Some s'"
  shows "dayColors s' = dayColors s \<and> nightColors s' = nightColors s \<and>
    transitionDuration s' = transitionDuration s \<and> targetState s' = targetState s \<and>
    (currentState s' = currentState s \<and> isTransitioning s' = isTransitioning s \<or>
     currentState s' = targetState s \<and> \<not> isTransitioning s')"
proof (cases "isTransitioning s")
  case False
  with assms show ?thesis by (auto simp: update_idle)
next
  case True
  with assms show ?thesis
    by (auto simp: update_def advance_def Let_def split: if_splits jsnum.splits)
qed

lemma toggle_cursor:
  "dayColors (toggle s) = dayColors s" "nightColors (toggle s) = nightColors s"
  "transitionDuration (toggle s) = transitionDuration s"
  "currentState (toggle s) = currentState s" "isTransitioning (toggle s)"
  by (simp_all add: toggle_def)

lemma reachable_invariant:
  "reachable s \<Longrightarrow>
     dayColors s = createDayState \<and> nightColors s = createNightState \<and>
     transitionDuration s = Value (5 / 2) \<and>
     (isTransitioning s \<or> currentState s = targetState s)"
proof (induction rule: reachable.induct)
  case reachable_init
  show ?case by (simp add: DayNightCycle_def applyState_def)
next
  case (reachable_toggle s)
  then show ?case by (simp add: toggle_cursor)
next
  case (reachable_update s deltaTime elapsedTime s')
  from update_cursor [OF reachable_update.hyps(3)] reachable_update.IH
  show ?case by auto
qed

lemma update_defined:
  "transitionDuration s = Value d \<Longrightarrow> d \<noteq> 0 \<Longrightarrow>
   \<exists>s'. update deltaTime elapsedTime s = Some s'"
  by (simp add: update_def Let_def advance_finite)

lemma reachable_update_defined:
  "reachable s \<Longrightarrow> \<exists>s'. update deltaTime elapsedTime s = Some s'"
  using reachable_invariant [of s] by (intro update_defined [where d = "5 / 2"]) simp_all

lemma lerp_same: "lerp x x t = x"
  by (simp add: lerp_def algebra_simps)

lemma lerpVectors_same: "lerpVectors v v alpha = v"
  by (cases v) simp

lemma lerpColors_same: "lerpColors c c alpha = c"
  by (cases c) simp

lemma normalize_unit:
  "x * x + y * y + z * z = 1 \<Longrightarrow> normalize (Vector3 x y z) = Vector3 x y z"
  by (simp add: Let_def)

lemma normalize_idem: "normalize (normalize v) = normalize v"
proof (cases v)
  case (Vector3 x y z)
  define q where "q = x * x + y * y + z * z"
  have q0: "0 \<le> q" by (simp add: q_def)
  show ?thesis
  proof (cases "q = 0")
    case True
    then show ?thesis by (simp add: Vector3 Let_def q_def [symmetric])
  next
    case False
    with q0 have pos: "0 < sqrt q" by simp
    have ss: "sqrt q * sqrt q = q" using q0 by simp
    have "(x / sqrt q) * (x / sqrt q) + (y / sqrt q) * (y / sqrt q) + (z / sqrt q) * (z / sqrt q)
        = (x * x + y * y + z * z) / (sqrt q * sqrt q)"
      by (simp only: times_divide_times_eq add_divide_distrib)
    also have "\<dots> = q / q" unfolding ss by (simp only: q_def)
    also have "\<dots> = 1" using False by simp
    finally have unit: "(x / sqrt q) * (x / sqrt q) + (y / sqrt q) * (y / sqrt q)
        + (z / sqrt q) * (z / sqrt q) = 1" .
    have first: "normalize v = Vector3 (x / sqrt q) (y / sqrt q) (z / sqrt q)"
      using False pos by (simp add: Vector3 Let_def q_def [symmetric])
    show ?thesis
      unfolding first by (rule normalize_unit [OF unit])
  qed
qed

lemma lerpState_same:
  assumes "normalize (sunDirection from) = sunDirection from"
  shows "lerpState from from t target = from"
  using assms
  by (cases "from"; cases target)
     (simp add: lerpState_def Let_def lerp_same lerpVectors_same lerpColors_same)

lemma canonical_directions:
  "normalize (sunDirection createDayState) = sunDirection createDayState"
  "normalize (sunDirection createNightState) = sunDirection createNightState"
  by (simp_all add: createDayState_def createNightState_def normalize_idem del: normalize.simps)

lemma scenario_A_cursor:
  "isTransitioning scenario_A" "targetState scenario_A = 1" "currentState scenario_A = 0"
  "transitionProgress scenario_A = 0" "transitionDuration scenario_A = Value (5 / 2)"
  "dayColors scenario_A = createDayState" "nightColors scenario_A = createNightState"
  "reachable scenario_A"
  by (simp_all add: scenario_A_def toggle_DayNightCycle reachable_toggle reachable_init)

lemma scenario_B_update:
  "update 1.25 0 scenario_A = Some scenario_B"
proof -
  have "\<exists>b. update 1.25 0 scenario_A = Some b"
    by (subst update_advance [where d = "5 / 2"]) (simp_all add: scenario_A_cursor)
  then show ?thesis by (auto simp: scenario_B_def)
qed

lemma scenario_B_cursor:
  "isTransitioning scenario_B" "targetState scenario_B = 1" "currentState scenario_B = 0"
  "transitionProgress scenario_B = 1 / 2" "transitionDuration scenario_B = Value (5 / 2)"
  "dayColors scenario_B = createDayState" "nightColors scenario_B = createNightState"
  "reachable scenario_B"
proof -
  have eq: "scenario_B = interpolate (scenario_A \<lparr> skyTimes := 0 # skyTimes scenario_A,
      transitionProgress := transitionProgress scenario_A + 1.25 / (5 / 2) \<rparr>)"
    unfolding scenario_B_def by (subst update_advance [where d = "5 / 2"]) (simp_all add: scenario_A_cursor)
  show "isTransitioning scenario_B" "targetState scenario_B = 1" "currentState scenario_B = 0"
    "transitionProgress scenario_B = 1 / 2" "transitionDuration scenario_B = Value (5 / 2)"
    "dayColors scenario_B = createDayState" "nightColors scenario_B = createNightState"
    by (simp_all add: eq scenario_A_cursor)
  show "reachable scenario_B"
    by (rule reachable_update [OF scenario_A_cursor(8) _ scenario_B_update]) simp
qed

lemma scenario_C_update:
  "update 1.25 0 scenario_B = Some scenario_C"
proof -
  have "\<exists>c. update 1.25 0 scenario_B = Some c"
    by (subst update_complete [where d = "5 / 2"]) (simp_all add: scenario_B_cursor)
  then show ?thesis by (auto simp: scenario_C_def)
qed

lemma scenario_C_cursor:
  "\<not> isTransitioning scenario_C" "targetState scenario_C = 1" "currentState scenario_C = 1"
  "transitionProgress scenario_C = 1" "reachable scenario_C"
proof -
  have eq: "scenario_C = interpolate (scenario_B \<lparr> skyTimes := 0 # skyTimes scenario_B,
      transitionProgress := 1, currentState := targetState scenario_B,
      isTransitioning := False \<rparr>)"
    unfolding scenario_C_def by (subst update_complete [where d = "5 / 2"]) (simp_all add: scenario_B_cursor)
  show "\<not> isTransitioning scenario_C" "targetState scenario_C = 1" "currentState scenario_C = 1"
    "transitionProgress scenario_C = 1"
    by (simp_all add: eq scenario_B_cursor)
  show "reachable scenario_C"
    by (rule reachable_update [OF scenario_B_cursor(8) _ scenario_C_update]) simp
qed

lemma reversed_at_half_cursor:
  "isTransitioning reversed_at_half" "targetState reversed_at_half = 0"
  "currentState reversed_at_half = 0" "transitionProgress reversed_at_half = 1 / 2"
  "transitionDuration reversed_at_half = Value (5 / 2)" "reachable reversed_at_half"
proof -
  show "isTransitioning reversed_at_half" "targetState reversed_at_half = 0"
    "currentState reversed_at_half = 0" "transitionProgress reversed_at_half = 1 / 2"
    "transitionDuration reversed_at_half = Value (5 / 2)"
    by (simp_all add: reversed_at_half_def toggle_def scenario_B_cursor)
  show "reachable reversed_at_half"
    unfolding reversed_at_half_def by (rule reachable_toggle) (rule scenario_B_cursor(8))
qed

lemma toggle_while_transitioning:
  "isTransitioning s \<Longrightarrow>
   toggle s = s \<lparr> targetState := (if targetState s = 0 then 1 else 0) \<rparr>"
  by (simp add: toggle_def)

lemma before_reversal_eq:
  "before_reversal = interpolate (scenario_A \<lparr> skyTimes := 0 # skyTimes scenario_A,
      transitionProgress := transitionProgress scenario_A + 0.75 / (5 / 2) \<rparr>)"
  unfolding before_reversal_def by (subst update_advance [where d = "5 / 2"]) (simp_all add: scenario_A_cursor)

lemma before_reversal_cursor:
  "isTransitioning before_reversal" "targetState before_reversal = 1"
  "currentState before_reversal = 0" "transitionProgress before_reversal = 3 / 10"
  "transitionDuration before_reversal = Value (5 / 2)"
  "dayColors before_reversal = createDayState" "nightColors before_reversal = createNightState"
  by (simp_all add: before_reversal_eq scenario_A_cursor)

lemma ease_three_tenths: "easeInOutCubic (3 / 10) = 27 / 250"
  by (simp add: easeInOutCubic_def)

section \<open>The scenarios of the specification\<close>

text \<open>
  Claim C5. From the idle day with the default duration 2.5 and after
  \<open>toggle()\<close>, the first \<open>update(1.25, t)\<close> gives the progress 0.5, the eased
  value 0.5 and the emitted sun intensity \<open>lerp 2.0 0.3 0.5\<close>, which is 1.15; the
  second \<open>update(1.25, t')\<close> gives the progress 1 exactly, the current state night
  (1), no transition any more, and the emitted sun intensity 0.3 exactly.
\<close>

theorem scenario_B_C:
  "\<exists>b c. update 1.25 t (toggle DayNightCycle) = Some b \<and>
     transitionProgress b = 0.5 \<and> easeInOutCubic (transitionProgress b) = 0.5 \<and>
     applied b = currentColors b # applied (toggle DayNightCycle) \<and>
     sunIntensity (currentColors b) = lerp 2.0 0.3 0.5 \<and> lerp 2.0 0.3 0.5 = 1.15 \<and>
     update 1.25 t' b = Some c \<and>
     transitionProgress c = 1 \<and> currentState c = 1 \<and> \<not> isTransitioning c \<and>
     applied c = currentColors c # applied b \<and>
     sunIntensity (currentColors c) = 0.3"
proof -
  define a where "a = toggle DayNightCycle"
  define b where "b = interpolate (a \<lparr> skyTimes := t # skyTimes a,
      transitionProgress := transitionProgress a + 1.25 / (5 / 2) \<rparr>)"
  define c where "c = interpolate (b \<lparr> skyTimes := t' # skyTimes b,
      transitionProgress := 1, currentState := targetState b, isTransitioning := False \<rparr>)"
  have ub: "update 1.25 t a = Some b"
    unfolding b_def by (rule update_advance [where d = "5 / 2"]) (simp_all add: a_def toggle_DayNightCycle)
  have pb: "transitionProgress b = 0.5"
    by (simp add: b_def a_def toggle_DayNightCycle)
  have eb: "easeInOutCubic (transitionProgress b) = 0.5"
    by (simp add: pb easeInOutCubic_def power3_eq_cube)
  have ab: "applied b = currentColors b # applied a"
    by (simp add: b_def interpolate_emits)
  have "sunIntensity (currentColors b) = lerp 2.0 0.3 (easeInOutCubic (transitionProgress b))"
    by (simp add: b_def interpolate_emits a_def toggle_DayNightCycle
        createDayState_def createNightState_def)
  then have sb: "sunIntensity (currentColors b) = lerp 2.0 0.3 0.5"
    by (simp only: eb)
  have l: "lerp 2.0 0.3 0.5 = 1.15" by (simp add: lerp_def)
  have bt: "isTransitioning b" "transitionDuration b = Value (5 / 2)" "targetState b = 1"
    "dayColors b = createDayState" "nightColors b = createNightState"
    by (simp_all add: b_def a_def toggle_DayNightCycle)
  have uc: "update 1.25 t' b = Some c"
    unfolding c_def by (rule update_complete [where d = "5 / 2"]) (simp_all add: bt pb)
  have pc: "transitionProgress c = 1" "currentState c = 1" "\<not> isTransitioning c"
    by (simp_all add: c_def bt)
  have ac: "applied c = currentColors c # applied b"
    by (simp add: c_def interpolate_emits)
  have sc: "sunIntensity (currentColors c) = 0.3"
    by (simp add: c_def interpolate_emits bt createNightState_def lerp_def
        easeInOutCubic_def)
  from ub pb eb ab sb l uc pc ac sc show ?thesis
    unfolding a_def by blast
qed

section \<open>Invariants of the reachable states\<close>

text \<open>
  Claim C10. In every state reached from the constructed object by \<open>toggle()\<close>
  and by \<open>update\<close> with a non-negative \<open>deltaTime\<close>, an idle machine
  (\<open>isTransitioning\<close> false) has its current state equal to its target state.
\<close>

theorem idle_means_settled:
  "reachable s \<Longrightarrow> \<not> isTransitioning s \<Longrightarrow> currentState s = targetState s"
  using reachable_invariant [of s] by blast

theorem idle_means_settled_witness:
  "reachable scenario_C \<and> \<not> isTransitioning scenario_C \<and>
   currentState scenario_C = targetState scenario_C \<and> currentState scenario_C = 1"
  using idle_means_settled [OF scenario_C_cursor(5) scenario_C_cursor(1)]
  by (simp add: scenario_C_cursor)

section \<open>A toggle during a transition\<close>

text \<open>
  Claim C9. Once \<open>toggle()\<close> has reversed an active transition, so that the
  target state equals the current state while \<open>isTransitioning\<close> still holds,
  every \<open>update\<close> that leaves the transition active takes the same canonical
  state as both endpoints of the interpolation: the blended state it writes
  and applies is the canonical state of the current state, whatever the
  progress.
\<close>

theorem reversal_blend_is_endpoint:
  assumes "reachable s" and "isTransitioning s" and "targetState s = currentState s"
    and "update deltaTime elapsedTime s = Some s'" and "isTransitioning s'"
  shows "currentColors s' = (if currentState s' = 0 then createDayState else createNightState) \<and>
    applied s' = currentColors s' # applied s \<and> targetState s' = currentState s'"
proof -
  from reachable_invariant [OF assms(1)]
  have canon: "dayColors s = createDayState" "nightColors s = createNightState" by simp_all
  from update_still_active [OF assms(2,4,5)] obtain p where
    s': "s' = interpolate (s \<lparr> skyTimes := elapsedTime # skyTimes s, transitionProgress := p \<rparr>)"
    by blast
  have "currentColors s' = (if currentState s = 0 then createDayState else createNightState)"
    by (simp add: s' interpolate_emits assms(3) canon lerpState_same canonical_directions)
  then show ?thesis
    by (simp add: s' interpolate_emits assms(3))
qed

theorem reversal_blend_is_endpoint_witness:
  "reachable reversed_at_half \<and> isTransitioning reversed_at_half \<and>
   targetState reversed_at_half = currentState reversed_at_half \<and>
   update 0.25 7 reversed_at_half = Some (the (update 0.25 7 reversed_at_half)) \<and>
   isTransitioning (the (update 0.25 7 reversed_at_half)) \<and>
   transitionProgress (the (update 0.25 7 reversed_at_half)) = 3 / 5 \<and>
   currentColors (the (update 0.25 7 reversed_at_half)) = createDayState"
proof -
  define s' where "s' = the (update 0.25 7 reversed_at_half)"
  have eq: "update 0.25 7 reversed_at_half =
      Some (interpolate (reversed_at_half \<lparr> skyTimes := 7 # skyTimes reversed_at_half,
        transitionProgress := transitionProgress reversed_at_half
          + 0.25 / (5 / 2) \<rparr>))"
    by (rule update_advance [where d = "5 / 2"]) (simp_all add: reversed_at_half_cursor)
  have s'_eq: "s' = interpolate (reversed_at_half \<lparr> skyTimes := 7 # skyTimes reversed_at_half,
        transitionProgress := transitionProgress reversed_at_half
          + 0.25 / (5 / 2) \<rparr>)"
    unfolding s'_def eq by simp
  have u: "update 0.25 7 reversed_at_half = Some s'"
    unfolding s'_def eq by simp
  have t: "isTransitioning s'" "transitionProgress s' = 3 / 5" "currentState s' = 0"
    by (simp_all add: s'_eq reversed_at_half_cursor)
  from reversal_blend_is_endpoint [OF reversed_at_half_cursor(6) reversed_at_half_cursor(1) _ u t(1)]
  have "currentColors s' = createDayState"
    by (simp add: reversed_at_half_cursor t)
  with u t show ?thesis
    by (simp add: s'_def [symmetric] reversed_at_half_cursor)
qed

text \<open>
  Claim C2, evaluated on the code. The run is 0.3 of the way from day to night,
  with the emitted sun intensity 1.8164. \<open>toggle()\<close> then leaves the progress at
  0.3 and the current state alone and turns the target back to day (0). The
  next \<open>update\<close>, even with no time elapsed, emits the canonical day state, sun
  intensity 2: the blend does not go on from where it was.
\<close>

theorem toggle_reversal_snaps_back:
  "isTransitioning before_reversal \<and> targetState before_reversal = 1 \<and>
   transitionProgress before_reversal = 0.3 \<and>
   sunIntensity (currentColors before_reversal) = 1.8164 \<and>
   transitionProgress (toggle before_reversal) = 0.3 \<and>
   currentState (toggle before_reversal) = currentState before_reversal \<and>
   targetState (toggle before_reversal) = 0 \<and>
   (\<exists>s'. update 0 0 (toggle before_reversal) = Some s' \<and> isTransitioning s' \<and>
      transitionProgress s' = 0.3 \<and> applied s' = currentColors s' # applied before_reversal \<and>
      currentColors s' = createDayState \<and> sunIntensity (currentColors s') = 2)"
proof -
  let ?r = "toggle before_reversal"
  have r: "?r = before_reversal \<lparr> targetState := 0 \<rparr>"
    by (simp add: toggle_while_transitioning before_reversal_cursor)
  have sun: "sunIntensity (currentColors before_reversal) = 1.8164"
    by (simp add: before_reversal_eq interpolate_emits scenario_A_cursor ease_three_tenths
        createDayState_def createNightState_def lerp_def)
  define s' where "s' = interpolate (?r \<lparr> skyTimes := 0 # skyTimes ?r,
      transitionProgress := transitionProgress ?r + 0 / (5 / 2) \<rparr>)"
  have u: "update 0 0 ?r = Some s'"
    unfolding s'_def by (rule update_advance [where d = "5 / 2"]) (simp_all add: r before_reversal_cursor)
  have c: "isTransitioning s'" "transitionProgress s' = 0.3"
    "applied s' = currentColors s' # applied before_reversal"
    by (simp_all add: s'_def interpolate_emits r before_reversal_cursor)
  have d: "currentColors s' = createDayState"
    by (simp add: s'_def interpolate_emits r before_reversal_cursor lerpState_same
        canonical_directions)
  have e: "sunIntensity createDayState = 2" by (simp add: createDayState_def)
  from u c d e have "\<exists>s'. update 0 0 ?r = Some s' \<and> isTransitioning s' \<and>
      transitionProgress s' = 0.3 \<and> applied s' = currentColors s' # applied before_reversal \<and>
      currentColors s' = createDayState \<and> sunIntensity (currentColors s') = 2"
    by auto
  with sun show ?thesis
    by (simp add: r before_reversal_cursor)
qed

text \<open>
  Claim C4, evaluated on the code. After the toggle, half a transition and a
  second toggle, which is a reachable state, \<open>getCurrentValue\<close> returns -1/2: the
  direction is -1 because the target (0) is not above the current state (0),
  and the eased progress is 1/2.
\<close>

theorem getCurrentValue_after_reversal:
  "reachable reversed_at_half \<and> getCurrentValue reversed_at_half = - 1 / 2"
  by (simp add: getCurrentValue_def reversed_at_half_cursor easeInOutCubic_def power3_eq_cube)

section \<open>A transition duration that is not positive\<close>







end
